theory Spec2Isabelle
  imports Main "HOL-Library.Word"
begin

unbundle bit_operations_syntax

section \<open>Bytes and the host's byte order\<close>

type_synonym uint8_t = "8 word"
type_synonym uint32_t = "32 word"

text \<open>
  \<^verbatim>\<open>*reinterpret_cast<const uint32_t*>(buffer)\<close> reads, and the assignment through
  \<^verbatim>\<open>*reinterpret_cast<uint32_t*>(buffer)\<close> writes, the bytes of an integer in the
  order of the machine the library runs on.  The order is a parameter of the model.
\<close>

datatype endianness = LittleEndian | BigEndian

fun le_word :: "uint8_t list \<Rightarrow> 'a::len word" where
  "le_word [] = 0"
| "le_word (b # bs) = ucast b OR push_bit 8 (le_word bs)"

fun le_bytes :: "nat \<Rightarrow> 'a::len word \<Rightarrow> uint8_t list" where
  "le_bytes 0 w = []"
| "le_bytes (Suc n) w = ucast w # le_bytes n (drop_bit 8 w)"

definition load_host :: "endianness \<Rightarrow> uint8_t list \<Rightarrow> 'a::len word" where
  "load_host e bs = (case e of LittleEndian \<Rightarrow> le_word bs | BigEndian \<Rightarrow> le_word (rev bs))"

definition store_host :: "endianness \<Rightarrow> nat \<Rightarrow> 'a::len word \<Rightarrow> uint8_t list" where
  "store_host e n w = (case e of LittleEndian \<Rightarrow> le_bytes n w | BigEndian \<Rightarrow> rev (le_bytes n w))"

text \<open>Writing a run of bytes into a buffer from an offset on, one cell after the other.\<close>

fun store_at :: "uint8_t list \<Rightarrow> nat \<Rightarrow> uint8_t list \<Rightarrow> uint8_t list" where
  "store_at buffer i [] = buffer"
| "store_at buffer i (b # bs) = store_at (buffer[i := b]) (Suc i) bs"


section \<open>Loopback (loopback.cpp)\<close>

text \<open>
  Every \<^verbatim>\<open>throw std::runtime_error(msg)\<close> is the value \<open>Inl (runtime_error msg)\<close>; a
  failed \<^verbatim>\<open>assert\<close> is \<open>Inl assertion_failed\<close>.
\<close>

datatype error = runtime_error string | assertion_failed

text \<open>
  The classes \<^verbatim>\<open>IP\<close> and \<^verbatim>\<open>LLC\<close> are not among the sources, so what their
  byte-buffer constructors build is left open: \<open>'ip\<close> and \<open>'llc\<close> stand for their objects.
  A \<^verbatim>\<open>RawPDU\<close> holds the bytes it was given.
\<close>

datatype ('ip, 'llc) PDU = IP_PDU 'ip | LLC_PDU 'llc | RawPDU "uint8_t list"

text \<open>
  \<^verbatim>\<open>Loopback\<close> has the member \<^verbatim>\<open>_family\<close> and, from its base class \<^verbatim>\<open>PDU\<close>, the owned
  pointer to the inner PDU, which is null (\<open>None\<close>) until \<^verbatim>\<open>inner_pdu(...)\<close> sets it.
\<close>

record ('ip, 'llc) Loopback =
  family :: uint32_t
  inner_pdu :: "('ip, 'llc) PDU option"

text \<open>
  What \<^verbatim>\<open>loopback.cpp\<close> takes from outside: the byte order of the host, the constants
  \<^verbatim>\<open>PF_INET\<close> and \<^verbatim>\<open>PF_LLC\<close> of \<^verbatim>\<open><sys/socket.h>\<close>, and the byte-buffer constructors
  of \<^verbatim>\<open>IP\<close> and \<^verbatim>\<open>LLC\<close>, which either throw or return an object.
\<close>

record ('ip, 'llc) env =
  byte_order :: endianness
  PF_INET :: uint32_t
  PF_LLC :: uint32_t
  IP_ctor :: "uint8_t list \<Rightarrow> error + 'ip"
  LLC_ctor :: "uint8_t list \<Rightarrow> error + 'llc"

definition RawPDU_ctor :: "uint8_t list \<Rightarrow> error + ('ip, 'llc) PDU" where
  \<comment> \<open>Modelled from the spec: \<^verbatim>\<open>RawPDU::RawPDU(const uint8_t*, uint32_t)\<close> is not among the
      sources.  Section 3: "catch-all body holding an opaque byte sequence"; section 4.2:
      "constructs a RawPDU holding the residual bytes".\<close>
  "RawPDU_ctor payload = Inr (RawPDU payload)"

text \<open>
  \<^verbatim>\<open>Loopback::Loopback(const uint8_t *buffer, uint32_t total_sz)\<close>.  The buffer is the list
  of its \<^verbatim>\<open>total_sz\<close> bytes.  No exception is caught in the constructor, so one thrown by
  \<^verbatim>\<open>new Tins::IP(...)\<close> or \<^verbatim>\<open>new Tins::LLC(...)\<close> leaves it: the \<open>Inl\<close> of the inner
  constructor is the \<open>Inl\<close> of this one.  The \<^verbatim>\<open>switch\<close> takes the first label that
  matches.
\<close>

definition Loopback_ctor ::
  "('ip, 'llc) env \<Rightarrow> uint8_t list \<Rightarrow> error + ('ip, 'llc) Loopback" where
  "Loopback_ctor env buffer =
    (let total_sz = length buffer in
     if total_sz < 4 then Inl (runtime_error ''Not enough size for a loopback PDU'')
     else
       let fam = load_host (byte_order env) (take 4 buffer);
           buffer' = drop 4 buffer;
           total_sz' = total_sz - 4
       in if total_sz' \<noteq> 0 then
            (if fam = PF_INET env then
               (case IP_ctor env buffer' of
                  Inl e \<Rightarrow> Inl e
                | Inr p \<Rightarrow> Inr \<lparr>family = fam, inner_pdu = Some (IP_PDU p)\<rparr>)
             else if fam = PF_LLC env then
               (case LLC_ctor env buffer' of
                  Inl e \<Rightarrow> Inl e
                | Inr p \<Rightarrow> Inr \<lparr>family = fam, inner_pdu = Some (LLC_PDU p)\<rparr>)
             else
               (case RawPDU_ctor buffer' of
                  Inl e \<Rightarrow> Inl e
                | Inr p \<Rightarrow> Inr \<lparr>family = fam, inner_pdu = Some p\<rparr>))
          else Inr \<lparr>family = fam, inner_pdu = None\<rparr>)"

text \<open>\<^verbatim>\<open>uint32_t Loopback::header_size() const\<close>: \<^verbatim>\<open>sizeof(_family)\<close>.\<close>

definition header_size :: "('ip, 'llc) Loopback \<Rightarrow> nat" where
  "header_size this = 4"

text \<open>
  \<^verbatim>\<open>void Loopback::write_serialization(uint8_t *buffer, uint32_t total_sz, const PDU *)\<close>.
  The method is not \<^verbatim>\<open>const\<close>, so the object is returned next to the buffer.  The third
  argument has no name in the source.
\<close>

definition write_serialization ::
  "endianness \<Rightarrow> ('ip, 'llc) Loopback \<Rightarrow> uint8_t list \<Rightarrow> 'parent option
     \<Rightarrow> error + (('ip, 'llc) Loopback \<times> uint8_t list)" where
  "write_serialization e this buffer parent =
    (let total_sz = length buffer in
     if \<not> total_sz \<ge> 4 then Inl assertion_failed
     else Inr (this, store_at buffer 0 (store_host e 4 (family this))))"


subsection \<open>A concrete host\<close>

definition IP_ctor_spec :: "uint8_t list \<Rightarrow> error + uint8_t list" where
  \<comment> \<open>Modelled from the spec: \<^verbatim>\<open>IP::IP(const uint8_t*, uint32_t)\<close> is not among the sources.
      Section 4.1: "any constructor fails with BufferTooShort when total_sz < header_size()";
      scenario 1 of section 8 gives the IPv4 header 20 bytes.  The object built is stood for
      by the bytes it was built from.\<close>
  "IP_ctor_spec bs =
    (if length bs < 20 then Inl (runtime_error ''BufferTooShort'') else Inr bs)"

definition LLC_ctor_spec :: "uint8_t list \<Rightarrow> error + uint8_t list" where
  \<comment> \<open>Modelled from the spec: \<^verbatim>\<open>LLC::LLC(const uint8_t*, uint32_t)\<close> is not among the sources.
      Section 4.1 as for IP; the spec gives no size for the LLC header, 3 bytes (DSAP, SSAP,
      control) are taken.\<close>
  "LLC_ctor_spec bs =
    (if length bs < 3 then Inl (runtime_error ''BufferTooShort'') else Inr bs)"

text \<open>A little-endian Linux host: \<^verbatim>\<open>PF_INET\<close> is 2 and \<^verbatim>\<open>PF_LLC\<close> is 26.\<close>

definition linux_env :: "(uint8_t list, uint8_t list) env" where
  "linux_env = \<lparr>byte_order = LittleEndian, PF_INET = 2, PF_LLC = 26,
                 IP_ctor = IP_ctor_spec, LLC_ctor = LLC_ctor_spec\<rparr>"


section \<open>DHCP (dhcp.h)\<close>

text \<open>
  \<^verbatim>\<open>enum Options\<close>: an option number is one byte.  \<^verbatim>\<open>PAD\<close> is the first enumerator, so it
  is 0 and the enumerators after it count up: \<^verbatim>\<open>DHCP_REQUESTED_ADDRESS\<close> is 50,
  \<^verbatim>\<open>DHCP_LEASE_TIME\<close> 51, \<^verbatim>\<open>DHCP_MESSAGE_TYPE\<close> 53, \<^verbatim>\<open>DHCP_SERVER_IDENTIFIER\<close> 54;
  \<^verbatim>\<open>END = 255\<close> is written out.
\<close>

type_synonym Options = uint8_t

definition DHCP_LEASE_TIME :: Options where "DHCP_LEASE_TIME = 51"
definition DHCP_MESSAGE_TYPE :: Options where "DHCP_MESSAGE_TYPE = 53"
definition DHCP_SERVER_IDENTIFIER :: Options where "DHCP_SERVER_IDENTIFIER = 54"
definition END :: Options where "END = 255"

text \<open>
  \<^verbatim>\<open>struct DHCPOption { uint8_t option; uint8_t length; uint8_t *value; ... }\<close>.  The
  fields are \<open>option_f\<close>, \<open>length_f\<close> and \<open>value_f\<close> here; \<open>value_f\<close> is the array the
  pointer \<^verbatim>\<open>value\<close> owns.
\<close>

record DHCPOption =
  option_f :: uint8_t
  length_f :: uint8_t
  value_f :: "uint8_t list"

definition DHCPOption_ctor :: "uint8_t \<Rightarrow> uint8_t \<Rightarrow> uint8_t list \<Rightarrow> DHCPOption" where
  \<comment> \<open>Modelled from the spec: the constructor is declared in \<^verbatim>\<open>dhcp.h\<close>, its body is not among
      the sources.  Its comment: "The option's value is copied", \<^verbatim>\<open>len\<close> being "the length of
      the option's value in bytes".\<close>
  "DHCPOption_ctor opt len val = \<lparr>option_f = opt, length_f = len, value_f = take (unat len) val\<rparr>"

text \<open>
  \<^verbatim>\<open>class DHCP : public BootP\<close> with the members \<^verbatim>\<open>_options\<close> and \<^verbatim>\<open>_size\<close>.  The class
  \<^verbatim>\<open>BootP\<close> is not among the sources: \<open>bootp_header\<close> stands for the bytes of its fixed
  header as \<^verbatim>\<open>BootP\<close> writes them.
\<close>

record DHCP =
  bootp_header :: "uint8_t list"
  options :: "DHCPOption list"
  size_f :: uint32_t

text \<open>
  \<^verbatim>\<open>enum PDU::PDUType\<close> is declared in \<^verbatim>\<open>pdu.h\<close>, which is not among the sources; the tags
  are the kinds that section 3 of the spec lists.
\<close>

datatype PDUType =
  PDU_ETHERNET | PDU_IP | PDU_TCP | PDU_UDP | PDU_DHCP | PDU_DOT11_BEACON | PDU_LOOPBACK | PDU_RAW

text \<open>\<^verbatim>\<open>PDUType pdu_type() const { return PDU::UDP; }\<close>\<close>

definition pdu_type :: "DHCP \<Rightarrow> PDUType" where
  "pdu_type this = PDU_UDP"

text \<open>
  A chain of PDUs, outermost first: a DHCP object, or an object of another class that
  reports the kind it carries.
\<close>

datatype layer = DHCP_layer DHCP | Other_layer PDUType

fun layer_type :: "layer \<Rightarrow> PDUType" where
  "layer_type (DHCP_layer d) = pdu_type d"
| "layer_type (Other_layer k) = k"

definition find_pdu :: "PDUType \<Rightarrow> layer list \<Rightarrow> layer option" where
  \<comment> \<open>Modelled from the spec: the search by kind belongs to \<^verbatim>\<open>PDU\<close>, which is not among the
      sources.  Section 4.1: "walks the chain and returns the first PDU whose kind matches
      T; returns null otherwise".\<close>
  "find_pdu k chain = find (\<lambda>l. layer_type l = k) chain"

definition search_option :: "DHCP \<Rightarrow> Options \<Rightarrow> DHCPOption option" where
  \<comment> \<open>Modelled from the spec: \<^verbatim>\<open>DHCP::search_option\<close> is declared in \<^verbatim>\<open>dhcp.h\<close>, its body is not
      among the sources.  Its comment: "A pointer to the option, or 0 if it was not found";
      section 8: "returns the option with code c of lowest index, or null".\<close>
  "search_option this opt = find (\<lambda>option. option_f option = opt) (options this)"

text \<open>
  \<^verbatim>\<open>template<class T> bool generic_search(Options opt, T *value)\<close>.  A scalar type \<^verbatim>\<open>T\<close> is a
  word type \<open>'a word\<close> whose \<^verbatim>\<open>sizeof\<close> is \<open>LENGTH('a) div 8\<close> bytes; \<^verbatim>\<open>*(T*)option->value\<close>
  reads that many bytes in the host's order.  The result is the \<^verbatim>\<open>bool\<close> returned and the
  content of \<^verbatim>\<open>*value\<close> afterwards, \<open>value0\<close> being its content before.
\<close>

definition generic_search ::
  "endianness \<Rightarrow> DHCP \<Rightarrow> Options \<Rightarrow> 'a::len word \<Rightarrow> bool \<times> 'a word" where
  "generic_search e this opt value0 =
    (case search_option this opt of
       Some option \<Rightarrow>
         if unat (length_f option) = LENGTH('a) div 8
         then (True, load_host e (take (LENGTH('a) div 8) (value_f option)))
         else (False, value0)
     | None \<Rightarrow> (False, value0))"

definition add_option ::
  "nat \<Rightarrow> DHCP \<Rightarrow> Options \<Rightarrow> uint8_t \<Rightarrow> uint8_t list \<Rightarrow> bool \<times> DHCP" where
  \<comment> \<open>Modelled from the spec: \<^verbatim>\<open>DHCP::add_option\<close> is declared in \<^verbatim>\<open>dhcp.h\<close>, its body and the
      value of \<^verbatim>\<open>MAX_DHCP_SIZE\<close> (the first argument) are not among the sources.  Its comment:
      "This copies the value buffer. Adding options may fail if there's not enough size to
      hold a new option"; section 4.3: "append to the end; does not dedupe".\<close>
  "add_option MAX_DHCP_SIZE this opt len val =
    (let opt_size = unat len + 2 in
     if unat (size_f this) + opt_size > MAX_DHCP_SIZE then (False, this)
     else (True, this\<lparr>options := options this @ [DHCPOption_ctor opt len val],
                       size_f := size_f this + of_nat opt_size\<rparr>))"

definition magic_cookie :: "uint8_t list" where
  \<comment> \<open>Section 4.5: the magic cookie \<^verbatim>\<open>0x63825363\<close>, in network byte order.\<close>
  "magic_cookie = [0x63, 0x82, 0x53, 0x63]"

fun write_options :: "DHCPOption list \<Rightarrow> uint8_t list \<Rightarrow> uint8_t list" where
  \<comment> \<open>Modelled from the spec: the loop of \<^verbatim>\<open>DHCP::write_serialization\<close> over \<^verbatim>\<open>_options\<close>;
      each option is written as its number, its length and its value, behind what is
      written already.\<close>
  "write_options [] out = out"
| "write_options (option # rest) out =
     write_options rest (out @ [option_f option, length_f option] @ value_f option)"

definition DHCP_write_serialization :: "DHCP \<Rightarrow> uint8_t list" where
  \<comment> \<open>Modelled from the spec: \<^verbatim>\<open>DHCP::write_serialization\<close> is declared in \<^verbatim>\<open>dhcp.h\<close>, its body
      is not among the sources.  Section 4.5: the inherited fixed header "is serialized
      first. Magic cookie 0x63825363 follows. Then the option list"; section 4.3: "write
      options in insertion order; append end-sentinel (where applicable) exactly once";
      the class comment: "The end option is added automatically at the end of the option
      list".\<close>
  "DHCP_write_serialization this =
    (let out = bootp_header this;
         out = out @ magic_cookie;
         out = write_options (options this) out;
         out = out @ [END]
     in out)"

text \<open>The bytes of one option on the wire: number, length, value.\<close>

definition option_bytes :: "DHCPOption \<Rightarrow> uint8_t list" where
  "option_bytes option = option_f option # length_f option # value_f option"


text \<open>
  Scenario 4 of section 8: a DHCP PDU with message type REQUEST, requested address
  192.0.2.5 and server identifier 192.0.2.1, on an empty BOOTP header of 236 bytes.
\<close>

definition dhcp_request :: DHCP where
  "dhcp_request =
    \<lparr>bootp_header = replicate 236 0,
     options = [DHCPOption_ctor DHCP_MESSAGE_TYPE 1 [3],
                DHCPOption_ctor 50 4 [192, 0, 2, 5],
                DHCPOption_ctor DHCP_SERVER_IDENTIFIER 4 [192, 0, 2, 1]],
     size_f = 20\<rparr>"


text \<open>A DHCP PDU that carries the option number 53 twice, with lengths 1 and 4.\<close>

definition dhcp_twice :: DHCP where
  "dhcp_twice =
    \<lparr>bootp_header = replicate 236 0,
     options = [DHCPOption_ctor DHCP_MESSAGE_TYPE 1 [3],
                DHCPOption_ctor DHCP_MESSAGE_TYPE 4 [1, 2, 3, 4]],
     size_f = 14\<rparr>"


section \<open>Lemmas on the byte order\<close>

lemma le_bytes_length: "length (le_bytes n w) = n"
  by (induction n arbitrary: w) auto

lemma le_bytes_numeral:
  "le_bytes (numeral k) w = ucast w # le_bytes (pred_numeral k) (drop_bit 8 w)"
  by (simp add: numeral_eq_Suc)

lemma store_host_length: "length (store_host e n w) = n"
  by (cases e) (simp_all add: store_host_def le_bytes_length)

lemma le_bytes_take_bit: "le_bytes n (take_bit (8 * n) w) = le_bytes n w"
proof (induction n arbitrary: w)
  case 0
  show ?case by simp
next
  case (Suc n)
  have low: "(ucast (take_bit (8 * Suc n) w) :: uint8_t) = ucast w"
    by (rule bit_word_eqI) (auto simp: bit_simps)
  have high: "drop_bit 8 (take_bit (8 * Suc n) w) = take_bit (8 * n) (drop_bit 8 w)"
    by (rule bit_word_eqI) (auto simp: bit_simps)
  show ?case
    using Suc [of "drop_bit 8 w"] by (simp add: low high del: mult_Suc_right)
qed

lemma le_bytes_le_word:
  "8 * length bs \<le> LENGTH('a::len) \<Longrightarrow> le_bytes (length bs) (le_word bs :: 'a word) = bs"
proof (induction bs)
  case Nil
  show ?case by simp
next
  case (Cons b bs)
  let ?r = "le_word bs :: 'a word"
  have len: "8 \<le> LENGTH('a)" using Cons.prems by simp
  have fits: "8 * length bs \<le> LENGTH('a) - 8" using Cons.prems by simp
  have low: "(ucast (ucast b OR push_bit 8 ?r :: 'a word) :: uint8_t) = b"
    using len by - (rule bit_word_eqI, auto simp: bit_simps)
  have high: "drop_bit 8 (ucast b OR push_bit 8 ?r :: 'a word) = take_bit (LENGTH('a) - 8) ?r"
    using len by - (rule bit_word_eqI, auto simp: bit_simps dest: bit_imp_le_length)
  have "le_bytes (length bs) (take_bit (LENGTH('a) - 8) ?r)
      = le_bytes (length bs) (take_bit (8 * length bs) (take_bit (LENGTH('a) - 8) ?r))"
    by (simp only: le_bytes_take_bit)
  also have "take_bit (8 * length bs) (take_bit (LENGTH('a) - 8) ?r) = take_bit (8 * length bs) ?r"
    using fits by (simp add: min_def)
  also have "le_bytes (length bs) (take_bit (8 * length bs) ?r) = bs"
    using Cons by (simp add: le_bytes_take_bit)
  finally have rest: "le_bytes (length bs) (take_bit (LENGTH('a) - 8) ?r) = bs" .
  show ?case
    by (simp only: length_Cons le_bytes.simps le_word.simps low high rest)
qed

lemma store_host_load_host:
  "8 * length bs \<le> LENGTH('a::len)
    \<Longrightarrow> store_host e (length bs) (load_host e bs :: 'a word) = bs"
proof (cases e)
  case LittleEndian
  assume "8 * length bs \<le> LENGTH('a)"
  then show ?thesis
    using LittleEndian by (simp add: store_host_def load_host_def le_bytes_le_word)
next
  case BigEndian
  assume "8 * length bs \<le> LENGTH('a)"
  then have "le_bytes (length (rev bs)) (le_word (rev bs) :: 'a word) = rev bs"
    by (intro le_bytes_le_word) simp
  then show ?thesis
    using BigEndian by (simp add: store_host_def load_host_def)
qed

lemma store_host_family:
  "4 \<le> length buffer
    \<Longrightarrow> store_host e 4 (load_host e (take 4 buffer) :: uint32_t) = take 4 buffer"
  using store_host_load_host [of "take 4 buffer" e, where 'a = 32] by simp

lemma store_at_length: "length (store_at buffer i bs) = length buffer"
  by (induction bs arbitrary: buffer i) auto

lemma store_at_nth:
  "k < length buffer \<Longrightarrow>
    store_at buffer i bs ! k = (if i \<le> k \<and> k < i + length bs then bs ! (k - i) else buffer ! k)"
proof (induction bs arbitrary: buffer i)
  case Nil
  show ?case by auto
next
  case (Cons b bs)
  have "store_at (buffer[i := b]) (Suc i) bs ! k
      = (if Suc i \<le> k \<and> k < Suc i + length bs then bs ! (k - Suc i) else buffer[i := b] ! k)"
    using Cons.prems by (intro Cons.IH) simp
  then show ?case
    using Cons.prems by (auto simp: nth_Cons' nth_list_update)
qed

lemma store_at_prefix:
  "length bs \<le> length buffer \<Longrightarrow> store_at buffer 0 bs = bs @ drop (length bs) buffer"
  by (rule nth_equalityI) (auto simp: store_at_length store_at_nth nth_append)


section \<open>Lemmas on Loopback\<close>

lemma Loopback_ctor_short:
  assumes "length buffer < 4"
  shows "Loopback_ctor env buffer = Inl (runtime_error ''Not enough size for a loopback PDU'')"
  using assms by (simp add: Loopback_ctor_def)

lemma Loopback_ctor_exact:
  assumes "length buffer = 4"
  shows "Loopback_ctor env buffer =
    Inr \<lparr>family = load_host (byte_order env) (take 4 buffer), inner_pdu = None\<rparr>"
  using assms by (simp add: Loopback_ctor_def)

lemma Loopback_ctor_residual:
  assumes "4 < length buffer"
  shows "Loopback_ctor env buffer =
    (if load_host (byte_order env) (take 4 buffer) = PF_INET env then
       (case IP_ctor env (drop 4 buffer) of
          Inl e \<Rightarrow> Inl e
        | Inr p \<Rightarrow> Inr \<lparr>family = load_host (byte_order env) (take 4 buffer),
                         inner_pdu = Some (IP_PDU p)\<rparr>)
     else if load_host (byte_order env) (take 4 buffer) = PF_LLC env then
       (case LLC_ctor env (drop 4 buffer) of
          Inl e \<Rightarrow> Inl e
        | Inr p \<Rightarrow> Inr \<lparr>family = load_host (byte_order env) (take 4 buffer),
                         inner_pdu = Some (LLC_PDU p)\<rparr>)
     else Inr \<lparr>family = load_host (byte_order env) (take 4 buffer),
               inner_pdu = Some (RawPDU (drop 4 buffer))\<rparr>)"
  using assms by (simp add: Loopback_ctor_def Let_def RawPDU_ctor_def)

lemma Loopback_ctor_family:
  assumes "Loopback_ctor env buffer = Inr p"
  shows "4 \<le> length buffer \<and> family p = load_host (byte_order env) (take 4 buffer)"
proof -
  have len: "4 \<le> length buffer"
    using assms by (cases "length buffer < 4") (simp_all add: Loopback_ctor_short)
  show ?thesis
  proof (cases "length buffer = 4")
    case True
    then show ?thesis using assms by (auto simp: Loopback_ctor_exact)
  next
    case False
    with len have more: "4 < length buffer" by simp
    show ?thesis
      using assms len unfolding Loopback_ctor_residual [OF more]
      by (auto split: if_splits sum.splits)
  qed
qed

lemma write_serialization_result:
  assumes "4 \<le> length buffer"
  shows "write_serialization e this buffer parent
    = Inr (this, store_host e 4 (family this) @ drop 4 buffer)"
  using assms by (simp add: write_serialization_def store_at_prefix store_host_length)

text \<open>The concrete host, evaluated.\<close>

lemma linux_env_fields:
  "byte_order linux_env = LittleEndian" "PF_INET linux_env = 2" "PF_LLC linux_env = 26"
  "IP_ctor linux_env = IP_ctor_spec" "LLC_ctor linux_env = LLC_ctor_spec"
  by (simp_all add: linux_env_def)


section \<open>Lemmas on DHCP\<close>

lemma write_options_append: "write_options opts out = out @ concat (map option_bytes opts)"
  by (induction opts arbitrary: out) (simp_all add: option_bytes_def)

lemma find_first:
  "\<forall>x \<in> set pre. \<not> P x \<Longrightarrow> P y \<Longrightarrow> find P (pre @ y # post) = Some y"
  by (induction pre) auto

lemma search_option_first:
  "search_option this c = Some option \<longleftrightarrow>
    (\<exists>i < length (options this). options this ! i = option \<and> option_f option = c
       \<and> (\<forall>j < i. option_f (options this ! j) \<noteq> c))"
  unfolding search_option_def find_Some_iff by blast

lemma search_option_none:
  "search_option this c = None \<longleftrightarrow> (\<forall>option \<in> set (options this). option_f option \<noteq> c)"
  unfolding search_option_def find_None_iff by blast



section \<open>Properties of Loopback\<close>

text \<open>
  Claim C2, as amended.  The byte-buffer constructor of Loopback throws its own error
  (the spec's BufferTooShort) whenever \<^verbatim>\<open>total_sz\<close> is below 4.  On a buffer of at least 4
  bytes it fails only when bytes are left after the family field and the constructor of
  the inner layer that the family selects (IP or LLC) throws on them, and then with that
  error; whenever it succeeds, the family field is the first 4 bytes of the buffer, read
  in the host's order.
\<close>

theorem Loopback_ctor_failure:
  "(length buffer < 4 \<longrightarrow>
      Loopback_ctor env buffer = Inl (runtime_error ''Not enough size for a loopback PDU''))
   \<and> (4 \<le> length buffer \<longrightarrow>
      (case Loopback_ctor env buffer of
         Inr p \<Rightarrow> family p = load_host (byte_order env) (take 4 buffer)
                 \<and> store_host (byte_order env) 4 (family p) = take 4 buffer
       | Inl e \<Rightarrow> 4 < length buffer \<and>
           (load_host (byte_order env) (take 4 buffer) = PF_INET env
              \<and> IP_ctor env (drop 4 buffer) = Inl e
            \<or> load_host (byte_order env) (take 4 buffer) \<noteq> PF_INET env
              \<and> load_host (byte_order env) (take 4 buffer) = PF_LLC env
              \<and> LLC_ctor env (drop 4 buffer) = Inl e)))"
proof (intro conjI impI)
  assume "length buffer < 4"
  then show "Loopback_ctor env buffer = Inl (runtime_error ''Not enough size for a loopback PDU'')"
    by (rule Loopback_ctor_short)
next
  let ?fam = "load_host (byte_order env) (take 4 buffer) :: uint32_t"
  assume len: "4 \<le> length buffer"
  then have same: "store_host (byte_order env) 4 ?fam = take 4 buffer"
    by (rule store_host_family)
  show "case Loopback_ctor env buffer of
         Inr p \<Rightarrow> family p = ?fam \<and> store_host (byte_order env) 4 (family p) = take 4 buffer
       | Inl e \<Rightarrow> 4 < length buffer \<and>
           (?fam = PF_INET env \<and> IP_ctor env (drop 4 buffer) = Inl e
            \<or> ?fam \<noteq> PF_INET env \<and> ?fam = PF_LLC env \<and> LLC_ctor env (drop 4 buffer) = Inl e)"
  proof (cases "length buffer = 4")
    case True
    then show ?thesis using same by (simp add: Loopback_ctor_exact)
  next
    case False
    with len have more: "4 < length buffer" by simp
    show ?thesis
      unfolding Loopback_ctor_residual [OF more]
      using more same by (auto split: sum.split)
  qed
qed

theorem Loopback_ctor_failure_witness:
  "Loopback_ctor linux_env [2, 0, 0]
     = Inl (runtime_error ''Not enough size for a loopback PDU'')
   \<and> (case Loopback_ctor linux_env [0xFF, 0xFF, 0xFF, 0xFF, 1, 2, 3] of
         Inr p \<Rightarrow> family p = 0xFFFFFFFF
                 \<and> store_host LittleEndian 4 (family p) = [0xFF, 0xFF, 0xFF, 0xFF]
       | Inl e \<Rightarrow> False)
   \<and> (case Loopback_ctor linux_env [2, 0, 0, 0, 1] of
         Inr p \<Rightarrow> False
       | Inl e \<Rightarrow> IP_ctor_spec [1] = Inl e)"
proof -
  have short: "Loopback_ctor linux_env [2, 0, 0]
      = Inl (runtime_error ''Not enough size for a loopback PDU'')"
    using Loopback_ctor_failure [of "[2, 0, 0]" linux_env] by simp
  have raw: "Loopback_ctor linux_env [0xFF, 0xFF, 0xFF, 0xFF, 1, 2, 3]
      = Inr \<lparr>family = 0xFFFFFFFF, inner_pdu = Some (RawPDU [1, 2, 3])\<rparr>"
    by (simp add: Loopback_ctor_def linux_env_fields load_host_def RawPDU_ctor_def)
  have ip: "Loopback_ctor linux_env [2, 0, 0, 0, 1] = Inl (runtime_error ''BufferTooShort'')"
    by (simp add: Loopback_ctor_def linux_env_fields load_host_def IP_ctor_spec_def)
  have accepted: "case Loopback_ctor linux_env [0xFF, 0xFF, 0xFF, 0xFF, 1, 2, 3] of
         Inr p \<Rightarrow> family p = 0xFFFFFFFF
                 \<and> store_host LittleEndian 4 (family p) = [0xFF, 0xFF, 0xFF, 0xFF]
       | Inl e \<Rightarrow> False"
    using Loopback_ctor_failure [of "[0xFF, 0xFF, 0xFF, 0xFF, 1, 2, 3]" linux_env]
    by (simp add: raw linux_env_fields load_host_def)
  have refused: "case Loopback_ctor linux_env [2, 0, 0, 0, 1] of
         Inr p \<Rightarrow> False
       | Inl e \<Rightarrow> IP_ctor_spec [1] = Inl e"
    using Loopback_ctor_failure [of "[2, 0, 0, 0, 1]" linux_env]
    by (simp add: ip linux_env_fields load_host_def)
  show ?thesis using short accepted refused by blast
qed

theorem Loopback_ctor_failure_counterexample:
  "\<not> length [2, 0, 0, 0, 1 :: uint8_t] < 4
   \<and> isl (Loopback_ctor linux_env [2, 0, 0, 0, 1])
   \<and> Loopback_ctor linux_env [2, 0, 0, 0, 1] = Inl (runtime_error ''BufferTooShort'')"
  by (simp add: Loopback_ctor_def linux_env_fields load_host_def IP_ctor_spec_def)

text \<open>
  Claim C3, as amended.  When the buffer is longer than 4 bytes and the constructor of the
  inner layer that the family selects throws on the residual, the byte-buffer constructor
  of Loopback does not return a PDU: nothing in it catches the exception, so it fails with
  the error of the inner constructor.
\<close>

theorem Loopback_ctor_inner_failure:
  "4 < length buffer \<Longrightarrow>
   (load_host (byte_order env) (take 4 buffer) = PF_INET env
      \<longrightarrow> IP_ctor env (drop 4 buffer) = Inl e \<longrightarrow> Loopback_ctor env buffer = Inl e)
   \<and> (load_host (byte_order env) (take 4 buffer) \<noteq> PF_INET env
      \<longrightarrow> load_host (byte_order env) (take 4 buffer) = PF_LLC env
      \<longrightarrow> LLC_ctor env (drop 4 buffer) = Inl e \<longrightarrow> Loopback_ctor env buffer = Inl e)"
  by (simp add: Loopback_ctor_residual)

theorem Loopback_ctor_inner_failure_witness:
  "Loopback_ctor linux_env [2, 0, 0, 0, 0x45, 0] = Inl (runtime_error ''BufferTooShort'')
   \<and> Loopback_ctor linux_env [26, 0, 0, 0, 0xAA, 0xAA] = Inl (runtime_error ''BufferTooShort'')"
proof -
  have ip: "Loopback_ctor linux_env [2, 0, 0, 0, 0x45, 0] = Inl (runtime_error ''BufferTooShort'')"
    using Loopback_ctor_inner_failure
      [of "[2, 0, 0, 0, 0x45, 0]" linux_env "runtime_error ''BufferTooShort''"]
    by (simp add: linux_env_fields load_host_def IP_ctor_spec_def)
  have llc: "Loopback_ctor linux_env [26, 0, 0, 0, 0xAA, 0xAA] = Inl (runtime_error ''BufferTooShort'')"
    using Loopback_ctor_inner_failure
      [of "[26, 0, 0, 0, 0xAA, 0xAA]" linux_env "runtime_error ''BufferTooShort''"]
    by (simp add: linux_env_fields load_host_def LLC_ctor_spec_def)
  show ?thesis using ip llc by (rule conjI)
qed

theorem Loopback_ctor_inner_failure_counterexample:
  "4 < length [2, 0, 0, 0, 0x45, 0, 0, 20 :: uint8_t]
   \<and> IP_ctor linux_env (drop 4 [2, 0, 0, 0, 0x45, 0, 0, 20]) = Inl (runtime_error ''BufferTooShort'')
   \<and> Loopback_ctor linux_env [2, 0, 0, 0, 0x45, 0, 0, 20] = Inl (runtime_error ''BufferTooShort'')
   \<and> Loopback_ctor linux_env [2, 0, 0, 0, 0x45, 0, 0, 20] \<noteq> Inr \<lparr>family = 2, inner_pdu = None\<rparr>"
  by (simp add: Loopback_ctor_def linux_env_fields load_host_def IP_ctor_spec_def)

text \<open>
  Claim C4, as amended.  On a buffer of more than 4 bytes the byte-buffer constructor of
  Loopback hands exactly the residual bytes after the first 4 to the constructor that the
  decoded family selects: that of IP when the family is \<^verbatim>\<open>PF_INET\<close>, that of LLC when it is
  \<^verbatim>\<open>PF_LLC\<close>, that of RawPDU for every other family.  When the selected constructor
  returns a PDU, that PDU is attached as the inner PDU; a RawPDU is always built and holds
  exactly the residual bytes; when the constructor of IP or LLC throws, so does the
  constructor of Loopback.
\<close>

theorem Loopback_ctor_inner_by_family:
  "4 < length buffer \<Longrightarrow> load_host (byte_order env) (take 4 buffer) = fam \<Longrightarrow>
   (fam = PF_INET env \<longrightarrow>
      Loopback_ctor env buffer =
        (case IP_ctor env (drop 4 buffer) of
           Inl e \<Rightarrow> Inl e
         | Inr q \<Rightarrow> Inr \<lparr>family = fam, inner_pdu = Some (IP_PDU q)\<rparr>))
   \<and> (fam \<noteq> PF_INET env \<and> fam = PF_LLC env \<longrightarrow>
      Loopback_ctor env buffer =
        (case LLC_ctor env (drop 4 buffer) of
           Inl e \<Rightarrow> Inl e
         | Inr q \<Rightarrow> Inr \<lparr>family = fam, inner_pdu = Some (LLC_PDU q)\<rparr>))
   \<and> (fam \<noteq> PF_INET env \<and> fam \<noteq> PF_LLC env \<longrightarrow>
      Loopback_ctor env buffer = Inr \<lparr>family = fam, inner_pdu = Some (RawPDU (drop 4 buffer))\<rparr>)"
  by (auto simp: Loopback_ctor_residual split: sum.split)

theorem Loopback_ctor_inner_by_family_witness:
  "Loopback_ctor linux_env
     [2, 0, 0, 0, 0x45, 0, 0, 20, 0, 0, 0, 0, 64, 17, 0, 0, 127, 0, 0, 1, 127, 0, 0, 1]
     = Inr \<lparr>family = 2, inner_pdu = Some (IP_PDU
         [0x45, 0, 0, 20, 0, 0, 0, 0, 64, 17, 0, 0, 127, 0, 0, 1, 127, 0, 0, 1])\<rparr>
   \<and> Loopback_ctor linux_env [26, 0, 0, 0, 0xAA, 0xAA, 3]
     = Inr \<lparr>family = 26, inner_pdu = Some (LLC_PDU [0xAA, 0xAA, 3])\<rparr>
   \<and> Loopback_ctor linux_env [0xFF, 0xFF, 0xFF, 0xFF, 1, 2, 3]
     = Inr \<lparr>family = 0xFFFFFFFF, inner_pdu = Some (RawPDU [1, 2, 3])\<rparr>"
proof -
  have ip: "Loopback_ctor linux_env
     [2, 0, 0, 0, 0x45, 0, 0, 20, 0, 0, 0, 0, 64, 17, 0, 0, 127, 0, 0, 1, 127, 0, 0, 1]
     = Inr \<lparr>family = 2, inner_pdu = Some (IP_PDU
         [0x45, 0, 0, 20, 0, 0, 0, 0, 64, 17, 0, 0, 127, 0, 0, 1, 127, 0, 0, 1])\<rparr>"
    using Loopback_ctor_inner_by_family
      [of "[2, 0, 0, 0, 0x45, 0, 0, 20, 0, 0, 0, 0, 64, 17, 0, 0, 127, 0, 0, 1, 127, 0, 0, 1]"
          linux_env 2]
    by (simp add: linux_env_fields load_host_def IP_ctor_spec_def)
  have llc: "Loopback_ctor linux_env [26, 0, 0, 0, 0xAA, 0xAA, 3]
     = Inr \<lparr>family = 26, inner_pdu = Some (LLC_PDU [0xAA, 0xAA, 3])\<rparr>"
    using Loopback_ctor_inner_by_family [of "[26, 0, 0, 0, 0xAA, 0xAA, 3]" linux_env 26]
    by (simp add: linux_env_fields load_host_def LLC_ctor_spec_def)
  have raw: "Loopback_ctor linux_env [0xFF, 0xFF, 0xFF, 0xFF, 1, 2, 3]
     = Inr \<lparr>family = 0xFFFFFFFF, inner_pdu = Some (RawPDU [1, 2, 3])\<rparr>"
    using Loopback_ctor_inner_by_family
      [of "[0xFF, 0xFF, 0xFF, 0xFF, 1, 2, 3]" linux_env "0xFFFFFFFF"]
    by (simp add: linux_env_fields load_host_def)
  show ?thesis using ip llc raw by blast
qed

theorem Loopback_ctor_inner_by_family_counterexample:
  "4 < length [2, 0, 0, 0, 0x45, 0, 0 :: uint8_t]
   \<and> load_host (byte_order linux_env) (take 4 [2, 0, 0, 0, 0x45, 0, 0]) = PF_INET linux_env
   \<and> isl (Loopback_ctor linux_env [2, 0, 0, 0, 0x45, 0, 0])"
  by (simp add: Loopback_ctor_def linux_env_fields load_host_def IP_ctor_spec_def)

text \<open>
  Claim C5, as amended.  The family field of Loopback is read from and written to the wire
  without any conversion of the byte order: for every buffer of at least 4 bytes that the
  byte-buffer constructor accepts, the PDU it builds has the first 4 bytes, read in the
  host's order, as its family, and \<^verbatim>\<open>write_serialization\<close> of that PDU puts the same 4
  bytes, unchanged, at the start of the buffer it is given.  The constructor accepts every
  buffer of exactly 4 bytes and every longer one, unless the constructor of the inner layer
  that the family selects (IP or LLC) throws on the residual; then, and only then, no
  Loopback is built and there is nothing to serialize.
\<close>

theorem Loopback_family_host_order:
  "4 \<le> length buffer \<Longrightarrow> 4 \<le> length out \<Longrightarrow>
   load_host (byte_order env) (take 4 buffer) = fam \<Longrightarrow>
   (case Loopback_ctor env buffer of
      Inr p \<Rightarrow> family p = fam
              \<and> write_serialization (byte_order env) p out parent
                  = Inr (p, take 4 buffer @ drop 4 out)
    | Inl e \<Rightarrow> 4 < length buffer \<and>
        (fam = PF_INET env \<and> IP_ctor env (drop 4 buffer) = Inl e
         \<or> fam \<noteq> PF_INET env \<and> fam = PF_LLC env \<and> LLC_ctor env (drop 4 buffer) = Inl e))
   \<and> (isl (Loopback_ctor env buffer) \<longleftrightarrow>
        4 < length buffer \<and>
        (fam = PF_INET env \<and> isl (IP_ctor env (drop 4 buffer))
         \<or> fam \<noteq> PF_INET env \<and> fam = PF_LLC env \<and> isl (LLC_ctor env (drop 4 buffer))))"
proof -
  assume len: "4 \<le> length buffer" and out: "4 \<le> length out"
    and fam: "load_host (byte_order env) (take 4 buffer) = fam"
  have same: "store_host (byte_order env) 4 fam = take 4 buffer"
    using store_host_family [OF len, of "byte_order env"] fam by simp
  have written: "write_serialization (byte_order env) \<lparr>family = fam, inner_pdu = i\<rparr> out parent
      = Inr (\<lparr>family = fam, inner_pdu = i\<rparr>, take 4 buffer @ drop 4 out)" for i
    by (simp add: write_serialization_result [OF out] same)
  show ?thesis
  proof (cases "length buffer = 4")
    case True
    have "Loopback_ctor env buffer = Inr \<lparr>family = fam, inner_pdu = None\<rparr>"
      using Loopback_ctor_exact [OF True, of env] fam by simp
    then show ?thesis using True written by simp
  next
    case False
    with len have more: "4 < length buffer" by simp
    show ?thesis
    proof (cases "fam = PF_INET env")
      case True
      then have ctor: "Loopback_ctor env buffer =
          (case IP_ctor env (drop 4 buffer) of
             Inl e \<Rightarrow> Inl e
           | Inr q \<Rightarrow> Inr \<lparr>family = fam, inner_pdu = Some (IP_PDU q)\<rparr>)"
        using Loopback_ctor_residual [OF more, of env] fam by (auto split: sum.split)
      show ?thesis
        using True more written unfolding ctor
        by (cases "IP_ctor env (drop 4 buffer)") simp_all
    next
      case not_inet: False
      show ?thesis
      proof (cases "fam = PF_LLC env")
        case True
        then have ctor: "Loopback_ctor env buffer =
            (case LLC_ctor env (drop 4 buffer) of
               Inl e \<Rightarrow> Inl e
             | Inr q \<Rightarrow> Inr \<lparr>family = fam, inner_pdu = Some (LLC_PDU q)\<rparr>)"
          using Loopback_ctor_residual [OF more, of env] fam not_inet
          by (auto split: sum.split)
        show ?thesis
          using True not_inet more written unfolding ctor
          by (cases "LLC_ctor env (drop 4 buffer)") simp_all
      next
        case False
        then have "Loopback_ctor env buffer
            = Inr \<lparr>family = fam, inner_pdu = Some (RawPDU (drop 4 buffer))\<rparr>"
          using Loopback_ctor_residual [OF more, of env] fam not_inet by simp
        then show ?thesis using False not_inet written by simp
      qed
    qed
  qed
qed

theorem Loopback_family_host_order_witness:
  "Loopback_ctor linux_env [0xFF, 0xFF, 0xFF, 0xFF, 1, 2, 3]
     = Inr \<lparr>family = 0xFFFFFFFF, inner_pdu = Some (RawPDU [1, 2, 3])\<rparr>
   \<and> write_serialization LittleEndian
        \<lparr>family = 0xFFFFFFFF,
         inner_pdu = Some (RawPDU [1, 2, 3] :: (uint8_t list, uint8_t list) PDU)\<rparr>
        [9, 9, 9, 9, 9, 9] (None :: unit option)
     = Inr (\<lparr>family = 0xFFFFFFFF, inner_pdu = Some (RawPDU [1, 2, 3])\<rparr>,
            [0xFF, 0xFF, 0xFF, 0xFF, 9, 9])
   \<and> Loopback_ctor (linux_env\<lparr>byte_order := BigEndian\<rparr>) [0, 0, 0, 26, 0xAA, 0xAA, 3]
     = Inr \<lparr>family = 26, inner_pdu = Some (LLC_PDU [0xAA, 0xAA, 3])\<rparr>
   \<and> write_serialization BigEndian
        \<lparr>family = 26,
         inner_pdu = Some (LLC_PDU [0xAA, 0xAA, 3] :: (uint8_t list, uint8_t list) PDU)\<rparr>
        [9, 9, 9, 9, 9, 9] (None :: unit option)
     = Inr (\<lparr>family = 26, inner_pdu = Some (LLC_PDU [0xAA, 0xAA, 3])\<rparr>, [0, 0, 0, 26, 9, 9])
   \<and> \<not> isl (Loopback_ctor linux_env [2, 0, 0, 0])
   \<and> isl (Loopback_ctor linux_env [2, 0, 0, 0, 0x45, 0, 0, 20, 0, 0])"
proof -
  let ?out = "[9, 9, 9, 9, 9, 9] :: uint8_t list"
  let ?raw = "[0xFF, 0xFF, 0xFF, 0xFF, 1, 2, 3] :: uint8_t list"
  let ?p = "\<lparr>family = 0xFFFFFFFF,
             inner_pdu = Some (RawPDU [1, 2, 3] :: (uint8_t list, uint8_t list) PDU)\<rparr>"
  have raw: "Loopback_ctor linux_env ?raw = Inr ?p"
    by (simp add: Loopback_ctor_def linux_env_fields load_host_def RawPDU_ctor_def)
  have raw_written: "write_serialization LittleEndian ?p ?out (None :: unit option)
      = Inr (?p, [0xFF, 0xFF, 0xFF, 0xFF, 9, 9])"
    using Loopback_family_host_order
      [of ?raw ?out linux_env "0xFFFFFFFF" "None :: unit option"]
    by (simp add: raw linux_env_fields load_host_def)
  let ?big = "linux_env\<lparr>byte_order := BigEndian\<rparr>"
  let ?llc = "[0, 0, 0, 26, 0xAA, 0xAA, 3] :: uint8_t list"
  let ?q = "\<lparr>family = 26,
             inner_pdu = Some (LLC_PDU [0xAA, 0xAA, 3] :: (uint8_t list, uint8_t list) PDU)\<rparr>"
  have llc: "Loopback_ctor ?big ?llc = Inr ?q"
    by (simp add: Loopback_ctor_def linux_env_fields load_host_def LLC_ctor_spec_def)
  have llc_written: "write_serialization BigEndian ?q ?out (None :: unit option)
      = Inr (?q, [0, 0, 0, 26, 9, 9])"
    using Loopback_family_host_order [of ?llc ?out ?big 26 "None :: unit option"]
    by (simp add: llc linux_env_fields load_host_def)
  have accepted: "\<not> isl (Loopback_ctor linux_env [2, 0, 0, 0])"
    using Loopback_family_host_order
      [of "[2, 0, 0, 0]" ?out linux_env 2 "None :: unit option"]
    by (simp add: linux_env_fields load_host_def)
  have refused: "isl (Loopback_ctor linux_env [2, 0, 0, 0, 0x45, 0, 0, 20, 0, 0])"
    using Loopback_family_host_order
      [of "[2, 0, 0, 0, 0x45, 0, 0, 20, 0, 0]" ?out linux_env 2 "None :: unit option"]
    by (simp add: linux_env_fields load_host_def IP_ctor_spec_def)
  show ?thesis using raw raw_written llc llc_written accepted refused by blast
qed

theorem Loopback_family_host_order_counterexample:
  "4 \<le> length [2, 0, 0, 0, 0x45, 0, 0, 20, 0, 0 :: uint8_t]
   \<and> isl (Loopback_ctor linux_env [2, 0, 0, 0, 0x45, 0, 0, 20, 0, 0])
   \<and> Loopback_ctor linux_env [2, 0, 0, 0, 0x45, 0, 0, 20, 0, 0]
     = Inl (runtime_error ''BufferTooShort'')"
  by (simp add: Loopback_ctor_def linux_env_fields load_host_def IP_ctor_spec_def)

text \<open>
  Claim C9.  On a buffer of exactly 4 bytes the byte-buffer constructor of Loopback
  succeeds and the PDU it builds has no inner PDU: the residual after the family field is
  empty, the \<^verbatim>\<open>if(total_sz)\<close> is not entered, and not even an empty RawPDU is made.
\<close>

theorem Loopback_ctor_four_bytes:
  "length buffer = 4 \<Longrightarrow>
    Loopback_ctor env buffer
      = Inr \<lparr>family = load_host (byte_order env) buffer, inner_pdu = None\<rparr>"
  by (simp add: Loopback_ctor_def)

theorem Loopback_ctor_four_bytes_witness:
  "length [26, 0, 0, 0 :: uint8_t] = 4
   \<and> Loopback_ctor linux_env [26, 0, 0, 0] = Inr \<lparr>family = 26, inner_pdu = None\<rparr>"
  using Loopback_ctor_four_bytes [of "[26, 0, 0, 0]" linux_env]
  by (simp add: linux_env_fields load_host_def)

text \<open>
  Claim C10.  \<^verbatim>\<open>Loopback::write_serialization\<close>, on a buffer of at least 4 bytes (its
  assertion), writes exactly the 4 bytes of the family field at the start of the buffer and
  leaves every byte at offset 4 and beyond as it was; the buffer keeps its length, the
  object is left as it was, and the result does not depend on the parent argument.
\<close>

theorem write_serialization_frame:
  "4 \<le> length buffer \<Longrightarrow>
   (\<exists>buffer'. write_serialization e this buffer parent = Inr (this, buffer')
      \<and> length buffer' = length buffer
      \<and> take 4 buffer' = store_host e 4 (family this)
      \<and> drop 4 buffer' = drop 4 buffer
      \<and> (\<forall>i. 4 \<le> i \<longrightarrow> i < length buffer \<longrightarrow> buffer' ! i = buffer ! i))
   \<and> write_serialization e this buffer parent' = write_serialization e this buffer parent"
  by (simp add: write_serialization_result store_host_length nth_append)

theorem write_serialization_frame_witness:
  "write_serialization LittleEndian
      \<lparr>family = 0x01020304, inner_pdu = Some (RawPDU [7] :: (unit, unit) PDU)\<rparr>
      [9, 9, 9, 9, 8, 7] (Some ())
    = Inr (\<lparr>family = 0x01020304, inner_pdu = Some (RawPDU [7])\<rparr>, [4, 3, 2, 1, 8, 7])"
proof -
  let ?pdu = "\<lparr>family = 0x01020304, inner_pdu = Some (RawPDU [7] :: (unit, unit) PDU)\<rparr>"
  let ?buffer = "[9, 9, 9, 9, 8, 7] :: uint8_t list"
  have len: "4 \<le> length ?buffer" by simp
  from write_serialization_frame [OF len, of LittleEndian ?pdu "Some ()" "Some ()"]
  obtain buffer' where
    res: "write_serialization LittleEndian ?pdu ?buffer (Some ()) = Inr (?pdu, buffer')"
    and front: "take 4 buffer' = store_host LittleEndian 4 (family ?pdu)"
    and rest: "drop 4 buffer' = drop 4 ?buffer"
    by blast
  have "buffer' = take 4 buffer' @ drop 4 buffer'" by simp
  also have "\<dots> = [4, 3, 2, 1, 8, 7]"
    unfolding front rest by (simp add: store_host_def le_bytes_numeral)
  finally show ?thesis using res by simp
qed



section \<open>Properties of DHCP\<close>

text \<open>
  Claim C6.  On serialization of a DHCP PDU the options are written in the order of the
  option list, which is the order in which \<^verbatim>\<open>add_option\<close> appended them, and exactly one
  END option (the single byte 255) follows the last of them, however many options there
  are.
\<close>

theorem DHCP_write_serialization_end_once:
  "DHCP_write_serialization this
     = bootp_header this @ magic_cookie @ concat (map option_bytes (options this)) @ [END]
   \<and> (\<forall>this'. add_option MAX_DHCP_SIZE this opt len val = (True, this')
         \<longrightarrow> options this' = options this @ [DHCPOption_ctor opt len val])
   \<and> (\<forall>this'. add_option MAX_DHCP_SIZE this opt len val = (False, this') \<longrightarrow> this' = this)"
  by (auto simp: DHCP_write_serialization_def write_options_append add_option_def Let_def
      split: if_splits)

theorem DHCP_write_serialization_end_once_witness:
  "drop 236 (DHCP_write_serialization dhcp_request)
     = [0x63, 0x82, 0x53, 0x63, 53, 1, 3, 50, 4, 192, 0, 2, 5, 54, 4, 192, 0, 2, 1, 255]
   \<and> add_option 312 dhcp_request DHCP_LEASE_TIME 4 [0, 0, 1, 0]
     = (True, dhcp_request\<lparr>options := options dhcp_request @ [DHCPOption_ctor 51 4 [0, 0, 1, 0]],
                            size_f := 26\<rparr>)
   \<and> drop 236 (DHCP_write_serialization
        (snd (add_option 312 dhcp_request DHCP_LEASE_TIME 4 [0, 0, 1, 0])))
     = [0x63, 0x82, 0x53, 0x63, 53, 1, 3, 50, 4, 192, 0, 2, 5, 54, 4, 192, 0, 2, 1,
        51, 4, 0, 0, 1, 0, 255]"
proof -
  let ?added = "dhcp_request\<lparr>options := options dhcp_request @ [DHCPOption_ctor 51 4 [0, 0, 1, 0]],
                              size_f := 26\<rparr>"
  have added: "add_option 312 dhcp_request DHCP_LEASE_TIME 4 [0, 0, 1, 0] = (True, ?added)"
    by (simp add: add_option_def dhcp_request_def DHCP_LEASE_TIME_def)
  have opts: "options ?added = options dhcp_request @ [DHCPOption_ctor 51 4 [0, 0, 1, 0]]"
    using DHCP_write_serialization_end_once
      [of dhcp_request 312 DHCP_LEASE_TIME 4 "[0, 0, 1, 0]"] added
    by (simp add: DHCP_LEASE_TIME_def)
  have first: "drop 236 (DHCP_write_serialization dhcp_request)
     = [0x63, 0x82, 0x53, 0x63, 53, 1, 3, 50, 4, 192, 0, 2, 5, 54, 4, 192, 0, 2, 1, 255]"
    using DHCP_write_serialization_end_once [of dhcp_request 312 DHCP_LEASE_TIME 4 "[0, 0, 1, 0]"]
    by (simp add: dhcp_request_def magic_cookie_def option_bytes_def DHCPOption_ctor_def
        DHCP_MESSAGE_TYPE_def DHCP_SERVER_IDENTIFIER_def END_def)
  have second: "drop 236 (DHCP_write_serialization ?added)
     = [0x63, 0x82, 0x53, 0x63, 53, 1, 3, 50, 4, 192, 0, 2, 5, 54, 4, 192, 0, 2, 1,
        51, 4, 0, 0, 1, 0, 255]"
    using DHCP_write_serialization_end_once [of ?added 312 DHCP_LEASE_TIME 4 "[0, 0, 1, 0]"]
    by (simp add: dhcp_request_def magic_cookie_def option_bytes_def DHCPOption_ctor_def
        DHCP_MESSAGE_TYPE_def DHCP_SERVER_IDENTIFIER_def END_def)
  show ?thesis using first second opts by (simp add: added)
qed

text \<open>
  Claim C7.  \<^verbatim>\<open>DHCP::pdu_type()\<close> returns the tag of UDP, not a tag of its own, for every
  DHCP object; so a search by kind for UDP finds a DHCP PDU: it does not return null on a
  chain that holds one, it returns the DHCP PDU when no layer before it has the tag of
  UDP, and a search for the tag of DHCP does not find it.
\<close>

theorem DHCP_pdu_type_is_UDP:
  "pdu_type this = PDU_UDP \<and> pdu_type this \<noteq> PDU_DHCP
   \<and> (DHCP_layer this \<in> set chain \<longrightarrow> find_pdu PDU_UDP chain \<noteq> None)
   \<and> ((\<forall>l \<in> set pre. layer_type l \<noteq> PDU_UDP)
        \<longrightarrow> find_pdu PDU_UDP (pre @ DHCP_layer this # post) = Some (DHCP_layer this))
   \<and> find_pdu PDU_DHCP [DHCP_layer this] = None"
proof (intro conjI impI)
  show "pdu_type this = PDU_UDP" by (simp add: pdu_type_def)
  show "pdu_type this \<noteq> PDU_DHCP" by (simp add: pdu_type_def)
  show "find_pdu PDU_DHCP [DHCP_layer this] = None" by (simp add: find_pdu_def pdu_type_def)
next
  assume "DHCP_layer this \<in> set chain"
  moreover have "layer_type (DHCP_layer this) = PDU_UDP" by (simp add: pdu_type_def)
  ultimately have "\<exists>l \<in> set chain. layer_type l = PDU_UDP" by blast
  then show "find_pdu PDU_UDP chain \<noteq> None"
    by (auto simp: find_pdu_def find_None_iff)
next
  assume "\<forall>l \<in> set pre. layer_type l \<noteq> PDU_UDP"
  then show "find_pdu PDU_UDP (pre @ DHCP_layer this # post) = Some (DHCP_layer this)"
    unfolding find_pdu_def by (intro find_first) (simp_all add: pdu_type_def)
qed

theorem DHCP_pdu_type_is_UDP_witness:
  "pdu_type dhcp_request = PDU_UDP
   \<and> find_pdu PDU_UDP [Other_layer PDU_ETHERNET, Other_layer PDU_IP, DHCP_layer dhcp_request]
     = Some (DHCP_layer dhcp_request)"
proof -
  let ?pre = "[Other_layer PDU_ETHERNET, Other_layer PDU_IP]"
  have none: "\<forall>l \<in> set ?pre. layer_type l \<noteq> PDU_UDP" by simp
  have "find_pdu PDU_UDP (?pre @ DHCP_layer dhcp_request # []) = Some (DHCP_layer dhcp_request)"
    using DHCP_pdu_type_is_UDP [of dhcp_request "[]" ?pre "[]"] none by blast
  moreover have "pdu_type dhcp_request = PDU_UDP"
    using DHCP_pdu_type_is_UDP [of dhcp_request "[]" ?pre "[]"] by blast
  ultimately show ?thesis by simp
qed

text \<open>
  Claim C8.  For every DHCP PDU and scalar type \<^verbatim>\<open>T\<close>, the generic scalar search for the
  option number \<open>c\<close> returns true exactly when \<^verbatim>\<open>search_option(c)\<close> finds an option whose
  length is \<^verbatim>\<open>sizeof(T)\<close>, and then stores the value of that option; it returns false, and
  stores nothing, when \<^verbatim>\<open>search_option(c)\<close> finds no option or finds one of another
  length.  The option that \<^verbatim>\<open>search_option(c)\<close> finds is the one with number \<open>c\<close> of lowest
  index, so an option of the right length behind a first one of another length is not
  looked at.
\<close>

theorem generic_search_scalar:
  fixes value0 :: "'a::len word"
  shows
  "(fst (generic_search e this c value0) \<longleftrightarrow>
      (\<exists>option. search_option this c = Some option
         \<and> unat (length_f option) = LENGTH('a) div 8))
   \<and> (\<forall>option. search_option this c = Some option
         \<longrightarrow> unat (length_f option) = LENGTH('a) div 8
         \<longrightarrow> generic_search e this c value0
              = (True, load_host e (take (LENGTH('a) div 8) (value_f option))))
   \<and> (\<forall>option. search_option this c = Some option
         \<longrightarrow> unat (length_f option) \<noteq> LENGTH('a) div 8
         \<longrightarrow> generic_search e this c value0 = (False, value0))
   \<and> (search_option this c = None \<longrightarrow> generic_search e this c value0 = (False, value0))
   \<and> (\<forall>option. search_option this c = Some option \<longleftrightarrow>
        (\<exists>i < length (options this). options this ! i = option \<and> option_f option = c
           \<and> (\<forall>j < i. option_f (options this ! j) \<noteq> c)))
   \<and> (search_option this c = None \<longleftrightarrow>
        (\<forall>option \<in> set (options this). option_f option \<noteq> c))"
proof -
  have res: "fst (generic_search e this c value0) \<longleftrightarrow>
      (\<exists>option. search_option this c = Some option
         \<and> unat (length_f option) = LENGTH('a) div 8)"
    by (simp add: generic_search_def split: option.split)
  have hit: "\<forall>option. search_option this c = Some option
         \<longrightarrow> unat (length_f option) = LENGTH('a) div 8
         \<longrightarrow> generic_search e this c value0
              = (True, load_host e (take (LENGTH('a) div 8) (value_f option)))"
    by (simp add: generic_search_def)
  have miss: "\<forall>option. search_option this c = Some option
         \<longrightarrow> unat (length_f option) \<noteq> LENGTH('a) div 8
         \<longrightarrow> generic_search e this c value0 = (False, value0)"
    by (simp add: generic_search_def)
  have none: "search_option this c = None \<longrightarrow> generic_search e this c value0 = (False, value0)"
    by (simp add: generic_search_def)
  show ?thesis
    using res hit miss none search_option_first [of this c] search_option_none [of this c]
    by blast
qed

theorem generic_search_scalar_witness:
  "generic_search BigEndian dhcp_request DHCP_SERVER_IDENTIFIER (0 :: uint32_t)
     = (True, 0xC0000201)
   \<and> generic_search BigEndian dhcp_request DHCP_MESSAGE_TYPE (7 :: uint32_t) = (False, 7)
   \<and> generic_search BigEndian dhcp_request DHCP_LEASE_TIME (7 :: uint32_t) = (False, 7)
   \<and> generic_search LittleEndian dhcp_twice DHCP_MESSAGE_TYPE (7 :: uint32_t) = (False, 7)
   \<and> generic_search LittleEndian dhcp_twice DHCP_MESSAGE_TYPE (7 :: uint8_t) = (True, 3)"
proof -
  have first: "search_option dhcp_twice DHCP_MESSAGE_TYPE
      = Some \<lparr>option_f = 53, length_f = 1, value_f = [3]\<rparr>"
    by (simp add: search_option_def dhcp_twice_def DHCPOption_ctor_def DHCP_MESSAGE_TYPE_def)
  have twice_word: "generic_search LittleEndian dhcp_twice DHCP_MESSAGE_TYPE (7 :: uint32_t)
      = (False, 7)"
    using generic_search_scalar
      [of LittleEndian dhcp_twice DHCP_MESSAGE_TYPE "7 :: uint32_t"] first
    by simp
  have "generic_search LittleEndian dhcp_twice DHCP_MESSAGE_TYPE (7 :: uint8_t)
      = (True, load_host LittleEndian (take (LENGTH(8) div 8)
          (value_f \<lparr>option_f = 53, length_f = 1, value_f = [3]\<rparr>)))"
    using generic_search_scalar
      [of LittleEndian dhcp_twice DHCP_MESSAGE_TYPE "7 :: uint8_t"] first
    by simp
  then have twice_byte: "generic_search LittleEndian dhcp_twice DHCP_MESSAGE_TYPE (7 :: uint8_t)
      = (True, 3)"
    by (simp add: load_host_def)
  let ?server = "\<lparr>option_f = 54, length_f = 4, value_f = [192, 0, 2, 1]\<rparr>"
  let ?type = "\<lparr>option_f = 53, length_f = 1, value_f = [3]\<rparr>"
  have server: "search_option dhcp_request DHCP_SERVER_IDENTIFIER = Some ?server"
    by (simp add: search_option_def dhcp_request_def DHCPOption_ctor_def
        DHCP_MESSAGE_TYPE_def DHCP_SERVER_IDENTIFIER_def)
  have type: "search_option dhcp_request DHCP_MESSAGE_TYPE = Some ?type"
    by (simp add: search_option_def dhcp_request_def DHCPOption_ctor_def
        DHCP_MESSAGE_TYPE_def DHCP_SERVER_IDENTIFIER_def)
  have lease: "search_option dhcp_request DHCP_LEASE_TIME = None"
    by (simp add: search_option_def dhcp_request_def DHCPOption_ctor_def
        DHCP_MESSAGE_TYPE_def DHCP_SERVER_IDENTIFIER_def DHCP_LEASE_TIME_def)
  have "generic_search BigEndian dhcp_request DHCP_SERVER_IDENTIFIER (0 :: uint32_t)
      = (True, load_host BigEndian (take (LENGTH(32) div 8) (value_f ?server)))"
    using generic_search_scalar
      [of BigEndian dhcp_request DHCP_SERVER_IDENTIFIER "0 :: uint32_t"] server
    by simp
  then have found: "generic_search BigEndian dhcp_request DHCP_SERVER_IDENTIFIER (0 :: uint32_t)
      = (True, 0xC0000201)"
    by (simp add: load_host_def)
  have wrong_length: "generic_search BigEndian dhcp_request DHCP_MESSAGE_TYPE (7 :: uint32_t)
      = (False, 7)"
    using generic_search_scalar
      [of BigEndian dhcp_request DHCP_MESSAGE_TYPE "7 :: uint32_t"] type
    by simp
  have absent: "generic_search BigEndian dhcp_request DHCP_LEASE_TIME (7 :: uint32_t)
      = (False, 7)"
    using generic_search_scalar
      [of BigEndian dhcp_request DHCP_LEASE_TIME "7 :: uint32_t"] lease
    by simp
  show ?thesis using found wrong_length absent twice_word twice_byte by blast
qed


end
